theory Spec2Isabelle
  imports Main
begin

section \<open>Text: Python \<open>str\<close> over the code points U+0000 .. U+00FF\<close>

text \<open>
  A Python \<open>str\<close> is a sequence of code points. A line is modelled as a \<open>string\<close> with one
  \<open>char\<close> per code point, so the model covers the text whose code points are below 256
  (ASCII and the Latin-1 supplement, which holds the one non-ASCII letter of the denylist,
  U+00F1). The character tables below are the ones CPython applies to these code points.
\<close>

definition code :: "char \<Rightarrow> nat" where
  "code c = of_char c"

definition in_range :: "char \<Rightarrow> char \<Rightarrow> char \<Rightarrow> bool" where
  "in_range a b c = (code a \<le> code c \<and> code c \<le> code b)"

text \<open>The two cases of a letter differ in the bit of weight 32.\<close>

fun with_bit5 :: "bool \<Rightarrow> char \<Rightarrow> char" where
  "with_bit5 b (Char b0 b1 b2 b3 b4 b5 b6 b7) = Char b0 b1 b2 b3 b4 b b6 b7"

text \<open>\<open>str.lower()\<close> on one code point (also the case folding of \<open>re.IGNORECASE\<close>):
  A-Z and U+00C0 .. U+00DE without the multiplication sign U+00D7 move up by 32.\<close>

definition py_lower :: "char \<Rightarrow> char" where
  "py_lower c =
     (if in_range (CHR ''A'') (CHR ''Z'') c \<or> (in_range (CHR 0xC0) (CHR 0xDE) c \<and> c \<noteq> CHR 0xD7)
      then with_bit5 True c else c)"

text \<open>The upper-case partner inside the range: a-z and U+00E0 .. U+00FE without the division
  sign U+00F7 move down by 32 (the capitals of U+00B5, U+00DF and U+00FF are not below 256).\<close>

definition py_upper :: "char \<Rightarrow> char" where
  "py_upper c =
     (if in_range (CHR ''a'') (CHR ''z'') c \<or> (in_range (CHR 0xE0) (CHR 0xFE) c \<and> c \<noteq> CHR 0xF7)
      then with_bit5 False c else c)"

definition lower :: "string \<Rightarrow> string" where
  "lower s = map py_lower s"

text \<open>\<open>str.isalnum()\<close> on one code point, which \<open>\w\<close> uses for a \<open>str\<close> pattern.\<close>

definition py_isalnum :: "char \<Rightarrow> bool" where
  "py_isalnum c =
     (in_range (CHR ''0'') (CHR ''9'') c \<or> in_range (CHR ''A'') (CHR ''Z'') c \<or>
      in_range (CHR ''a'') (CHR ''z'') c \<or>
      c = CHR 0xAA \<or> c = CHR 0xB2 \<or> c = CHR 0xB3 \<or> c = CHR 0xB5 \<or> c = CHR 0xB9 \<or>
      c = CHR 0xBA \<or> in_range (CHR 0xBC) (CHR 0xBE) c \<or>
      in_range (CHR 0xC0) (CHR 0xD6) c \<or> in_range (CHR 0xD8) (CHR 0xF6) c \<or>
      in_range (CHR 0xF8) (CHR 0xFF) c)"

text \<open>\<open>str.isspace()\<close> on one code point, which \<open>\s\<close> uses for a \<open>str\<close> pattern.\<close>

definition py_isspace :: "char \<Rightarrow> bool" where
  "py_isspace c =
     (in_range (CHR 0x09) (CHR 0x0D) c \<or> in_range (CHR 0x1C) (CHR 0x20) c \<or>
      c = CHR 0x85 \<or> c = CHR 0xA0)"

text \<open>\<open>s.startswith(p)\<close> and the substring test \<open>sub in s\<close>.\<close>

fun startswith :: "string \<Rightarrow> string \<Rightarrow> bool" where
  "startswith s [] = True"
| "startswith [] (p # ps) = False"
| "startswith (c # cs) (p # ps) = (c = p \<and> startswith cs ps)"

fun contains :: "string \<Rightarrow> string \<Rightarrow> bool" where
  "contains [] sub = (sub = [])"
| "contains (c # cs) sub = (startswith (c # cs) sub \<or> contains cs sub)"


section \<open>The fragment of \<open>re\<close> that the module's patterns are written in\<close>

datatype category = CATEGORY_WORD | CATEGORY_SPACE

datatype set_item = Chr char | Range char char | Category category

text \<open>One-character items: \<open>.\<close>, a set \<open>[...]\<close> and a negated set \<open>[^...]\<close>.\<close>

datatype atom = ANY | IN "set_item list" | NOT_IN "set_item list"

datatype regex =
    Eps
  | Lit string
  | One atom
  | Repeat nat "nat option" bool atom
  | Opt regex
  | Seq regex regex
  | Alt regex regex
  | Group nat regex
  | GroupRef nat
  | Lookahead regex
  | Boundary

text \<open>
  \<open>Lit t\<close> is the literal text \<open>t\<close>; \<open>Repeat lo hi greedy a\<close> is \<open>a{lo,hi}\<close> for a one-character
  item (\<open>hi = None\<close> is unbounded, \<open>greedy = False\<close> is the lazy \<open>{lo,hi}?\<close>); \<open>Opt r\<close> is
  \<open>r?\<close>; \<open>Group n r\<close> is the \<open>n\<close>-th capturing group; \<open>GroupRef n\<close> is the back-reference
  \<open>\n\<close>; \<open>Lookahead r\<close> is \<open>(?=r)\<close>; \<open>Boundary\<close> is \<open>\b\<close>.
\<close>

fun seqs :: "regex list \<Rightarrow> regex" where
  "seqs [] = Eps"
| "seqs [r] = r"
| "seqs (r # rs) = Seq r (seqs rs)"

fun alts :: "regex list \<Rightarrow> regex" where
  "alts [] = Lit []"
| "alts [r] = r"
| "alts (r # rs) = Alt r (alts rs)"

definition is_word :: "char \<Rightarrow> bool" where
  "is_word c = (py_isalnum c \<or> c = CHR ''_'')"

fun item_matches :: "set_item \<Rightarrow> char \<Rightarrow> bool" where
  "item_matches (Chr x) c = (c = x)"
| "item_matches (Range a b) c = in_range a b c"
| "item_matches (Category CATEGORY_WORD) c = is_word c"
| "item_matches (Category CATEGORY_SPACE) c = py_isspace c"

text \<open>Under \<open>re.IGNORECASE\<close> a set holds a character when it holds one of its two cases.\<close>

definition in_set :: "bool \<Rightarrow> set_item list \<Rightarrow> char \<Rightarrow> bool" where
  "in_set ic items c =
     (if ic then list_ex (\<lambda>i. item_matches i (py_lower c) \<or> item_matches i (py_upper c)) items
      else list_ex (\<lambda>i. item_matches i c) items)"

fun atom_matches :: "bool \<Rightarrow> atom \<Rightarrow> char \<Rightarrow> bool" where
  "atom_matches ic ANY c = (c \<noteq> CHR 0x0A)"
| "atom_matches ic (IN items) c = in_set ic items c"
| "atom_matches ic (NOT_IN items) c = (\<not> in_set ic items c)"

definition chr_eq :: "bool \<Rightarrow> char \<Rightarrow> char \<Rightarrow> bool" where
  "chr_eq ic p c = (if ic then py_lower c = py_lower p else c = p)"

text \<open>
  A matcher state: the character before the position (for \<open>\b\<close>), the text from the position
  on, and the groups captured so far (the latest entry of a group first).
\<close>

datatype mstate = MState (before: "char option") (rest: string) (caps: "(nat \<times> string) list")

fun match_lit :: "bool \<Rightarrow> string \<Rightarrow> mstate \<Rightarrow> mstate list" where
  "match_lit ic [] s = [s]"
| "match_lit ic (p # ps) (MState b [] g) = []"
| "match_lit ic (p # ps) (MState b (c # cs) g) =
     (if chr_eq ic p c then match_lit ic ps (MState (Some c) cs g) else [])"

text \<open>The states after 0, 1, 2, ... repetitions of a one-character item, at most \<open>hi\<close>.\<close>

fun span_states ::
  "(char \<Rightarrow> bool) \<Rightarrow> nat option \<Rightarrow> char option \<Rightarrow> string \<Rightarrow> (nat \<times> string) list \<Rightarrow> mstate list"
where
  "span_states P hi b [] g = [MState b [] g]"
| "span_states P hi b (c # cs) g =
     MState b (c # cs) g #
       (if hi \<noteq> Some 0 \<and> P c
        then span_states P (map_option (\<lambda>n. n - 1) hi) (Some c) cs g else [])"

definition at_boundary :: "mstate \<Rightarrow> bool" where
  "at_boundary s =
     ((case before s of None \<Rightarrow> False | Some c \<Rightarrow> is_word c) \<noteq>
      (case rest s of [] \<Rightarrow> False | c # _ \<Rightarrow> is_word c))"

definition set_group :: "nat \<Rightarrow> mstate \<Rightarrow> mstate \<Rightarrow> mstate" where
  "set_group n s s' =
     MState (before s') (rest s')
       ((n, take (length (rest s) - length (rest s')) (rest s)) # caps s')"

text \<open>
  The backtracking matcher: every way the expression matches at the position, in the order
  in which \<open>re\<close> tries them (an alternative before the next one, a greedy repetition from
  the longest, a lazy one from the shortest). The first state of the list is the match.
\<close>

fun matches :: "bool \<Rightarrow> regex \<Rightarrow> mstate \<Rightarrow> mstate list" where
  "matches ic Eps s = [s]"
| "matches ic (Lit t) s = match_lit ic t s"
| "matches ic (One a) s =
     (case s of
        MState b [] g \<Rightarrow> []
      | MState b (c # cs) g \<Rightarrow> if atom_matches ic a c then [MState (Some c) cs g] else [])"
| "matches ic (Repeat lo hi greedy a) s =
     (let xs = drop lo (span_states (atom_matches ic a) hi (before s) (rest s) (caps s))
      in if greedy then rev xs else xs)"
| "matches ic (Opt r) s = matches ic r s @ [s]"
| "matches ic (Seq r1 r2) s = concat (map (matches ic r2) (matches ic r1 s))"
| "matches ic (Alt r1 r2) s = matches ic r1 s @ matches ic r2 s"
| "matches ic (Group n r) s = map (set_group n s) (matches ic r s)"
| "matches ic (GroupRef n) s =
     (case map_of (caps s) n of None \<Rightarrow> [] | Some t \<Rightarrow> match_lit ic t s)"
| "matches ic (Lookahead r) s =
     (case matches ic r s of [] \<Rightarrow> [] | s' # _ \<Rightarrow> [MState (before s) (rest s) (caps s')])"
| "matches ic Boundary s = (if at_boundary s then [s] else [])"

text \<open>The number of capturing groups of an expression (\<open>Pattern.groups\<close>).\<close>

fun groups :: "regex \<Rightarrow> nat" where
  "groups (Group n r) = max n (groups r)"
| "groups (Opt r) = groups r"
| "groups (Seq r1 r2) = max (groups r1) (groups r2)"
| "groups (Alt r1 r2) = max (groups r1) (groups r2)"
| "groups (Lookahead r) = groups r"
| "groups r = 0"

text \<open>A compiled expression: the \<open>re.IGNORECASE\<close> flag and the program.\<close>

datatype pattern = Pattern (ignorecase: bool) (prog: regex)

text \<open>A match object: the matched text, the captured groups, the number of groups.\<close>

datatype match = Match (whole: string) (captured: "(nat \<times> string) list") (ngroups: nat)

fun search_at :: "pattern \<Rightarrow> char option \<Rightarrow> string \<Rightarrow> match option" where
  "search_at p b [] =
     (case matches (ignorecase p) (prog p) (MState b [] []) of
        [] \<Rightarrow> None
      | s' # _ \<Rightarrow> Some (Match [] (caps s') (groups (prog p))))"
| "search_at p b (c # cs) =
     (case matches (ignorecase p) (prog p) (MState b (c # cs) []) of
        [] \<Rightarrow> search_at p (Some c) cs
      | s' # _ \<Rightarrow>
          Some (Match (take (length (c # cs) - length (rest s')) (c # cs)) (caps s')
                  (groups (prog p))))"

text \<open>\<open>Pattern.search(string)\<close>: the match at the leftmost position that has one.\<close>

definition search :: "pattern \<Rightarrow> string \<Rightarrow> match option" where
  "search p s = search_at p None s"

datatype error = IndexError | ReError

text \<open>\<open>Match.group(n)\<close>: \<open>None\<close> for a group that took no part in the match, IndexError
  for a group the expression does not have.\<close>

definition group :: "match \<Rightarrow> nat \<Rightarrow> error + string option" where
  "group m n =
     (if n = 0 then Inr (Some (whole m))
      else if ngroups m < n then Inl IndexError
      else Inr (map_of (captured m) n))"


section \<open>The rule grammar of \<open>detect_secrets/plugins/keyword.py\<close>\<close>

definition optional_chr :: "char \<Rightarrow> regex" where
  "optional_chr c = Repeat 0 (Some 1) True (IN [Chr c])"

definition star :: "atom \<Rightarrow> regex" where
  "star a = Repeat 0 None True a"

text \<open>The denylist entries, in the order of the tuple \<open>DENYLIST\<close>.\<close>

definition DENYLIST :: "regex list" where
  "DENYLIST =
    [ seqs [Lit ''api'', Repeat 0 (Some 1) True (IN [Chr (CHR ''_''), Chr (CHR ''.''), Chr (CHR ''-'')]),
            Lit ''key''],
      seqs [Lit ''auth'', optional_chr (CHR ''_''), Lit ''key''],
      seqs [Lit ''service'', optional_chr (CHR ''_''), Lit ''key''],
      seqs [Lit ''account'', optional_chr (CHR ''_''), Lit ''key''],
      seqs [Lit ''db'', optional_chr (CHR ''_''), Lit ''key''],
      seqs [Lit ''database'', optional_chr (CHR ''_''), Lit ''key''],
      seqs [Lit ''priv'', optional_chr (CHR ''_''), Lit ''key''],
      seqs [Lit ''private'', optional_chr (CHR ''_''), Lit ''key''],
      seqs [Lit ''client'', optional_chr (CHR ''_''), Lit ''key''],
      seqs [Lit ''db'', optional_chr (CHR ''_''), Lit ''pass''],
      seqs [Lit ''database'', optional_chr (CHR ''_''), Lit ''pass''],
      seqs [Lit ''key'', optional_chr (CHR ''_''), Lit ''pass''],
      Lit ''password'',
      Lit ''passwd'',
      Lit ''token'',
      seqs [Lit ''_pass'', Boundary],
      Lit ''pwd'',
      Lit ''secret'',
      Lit (''contrase'' @ [CHR 0xF1] @ ''a''),
      Lit ''contrasena'',
      seqs [Lit ''recaptcha_'', star ANY, Lit ''key''],
      seqs [Lit ''nessus'', optional_chr (CHR ''_''), Lit ''key''] ]"

definition ALLOWLIST :: "string list" where
  "ALLOWLIST =
    [ ''publickeytoken'', ''tokenendpoint'', ''secretname'', ''keyvaultsecretname'',
      ''maxInvalidPasswordAttempts'', ''PasswordType'', ''forwardWindowsAuthToken'',
      ''saveBootstrapTokens'', ''AntiXsrfTokenKey'', ''savePWD'', ''userPWD'', ''example'' ]"

text \<open>\<open>CLOSING = r'[]\'"]{0,2}'\<close>\<close>

definition CLOSING :: regex where
  "CLOSING = Repeat 0 (Some 2) True (IN [Chr (CHR '']''), Chr (CHR 0x27), Chr (CHR 0x22)])"

text \<open>\<open>AFFIX_REGEX = r'\w*'\<close>\<close>

definition AFFIX_REGEX :: regex where
  "AFFIX_REGEX = star (IN [Category CATEGORY_WORD])"

text \<open>\<open>DENYLIST_REGEX = r'({denylist}){suffix}'\<close>, the group being the \<open>g\<close>-th of the
  expression it is placed in.\<close>

definition DENYLIST_REGEX :: "nat \<Rightarrow> regex" where
  "DENYLIST_REGEX g = Seq (Group g (alts DENYLIST)) AFFIX_REGEX"

definition DENYLIST_REGEX_WITH_PREFIX :: "nat \<Rightarrow> regex" where
  "DENYLIST_REGEX_WITH_PREFIX g = Seq AFFIX_REGEX (DENYLIST_REGEX g)"

text \<open>\<open>OPTIONAL_WHITESPACE = r'\s*'\<close>, \<open>OPTIONAL_NON_WHITESPACE = r'[^\s]{0,50}?'\<close>,
  \<open>QUOTE = r'[\'"`]'\<close>\<close>

definition OPTIONAL_WHITESPACE :: regex where
  "OPTIONAL_WHITESPACE = star (IN [Category CATEGORY_SPACE])"

definition OPTIONAL_NON_WHITESPACE :: regex where
  "OPTIONAL_NON_WHITESPACE = Repeat 0 (Some 50) False (NOT_IN [Category CATEGORY_SPACE])"

definition QUOTE :: atom where
  "QUOTE = IN [Chr (CHR 0x27), Chr (CHR 0x22), Chr (CHR 0x60)]"

text \<open>\<open>SECRET = r'(?=[^\v\'\"]*)(?=[a-zA-Z0-9_!@#%^&])[^\v\'\"]*[^\v,\'\"`]'\<close>.
  In \<open>re\<close> the escape \<open>\v\<close> is the one character U+000B (vertical tab).\<close>

definition SECRET :: regex where
  "SECRET =
     seqs [ Lookahead (star (NOT_IN [Chr (CHR 0x0B), Chr (CHR 0x27), Chr (CHR 0x22)])),
            Lookahead (One (IN [Range (CHR ''a'') (CHR ''z''), Range (CHR ''A'') (CHR ''Z''),
                                Range (CHR ''0'') (CHR ''9''), Chr (CHR ''_''), Chr (CHR ''!''),
                                Chr (CHR ''@''), Chr (CHR ''#''), Chr (CHR ''%''), Chr (CHR ''^''),
                                Chr (CHR ''&'')])),
            star (NOT_IN [Chr (CHR 0x0B), Chr (CHR 0x27), Chr (CHR 0x22)]),
            One (NOT_IN [Chr (CHR 0x0B), Chr (CHR '',''), Chr (CHR 0x27), Chr (CHR 0x22),
                         Chr (CHR 0x60)]) ]"

text \<open>\<open>SQUARE_BRACKETS = r'(\[[0-9]*\])'\<close>\<close>

definition SQUARE_BRACKETS :: "nat \<Rightarrow> regex" where
  "SQUARE_BRACKETS g = Group g (seqs [Lit ''['', star (IN [Range (CHR ''0'') (CHR ''9'')]), Lit '']''])"

text \<open>\<open>{denylist}({closing})?{whitespace}:=?{whitespace}({quote}?)({secret})(\3)\<close>,
  IGNORECASE\<close>

definition FOLLOWED_BY_COLON_EQUAL_SIGNS_REGEX :: pattern where
  "FOLLOWED_BY_COLON_EQUAL_SIGNS_REGEX = Pattern True
     (seqs [ DENYLIST_REGEX 1, Opt (Group 2 CLOSING), OPTIONAL_WHITESPACE,
             Lit '':'', optional_chr (CHR ''=''), OPTIONAL_WHITESPACE,
             Group 3 (Repeat 0 (Some 1) True QUOTE), Group 4 SECRET, Group 5 (GroupRef 3) ])"

text \<open>\<open>{denylist}({closing})?:{whitespace}({quote}?)({secret})(\3)\<close>, IGNORECASE\<close>

definition FOLLOWED_BY_COLON_REGEX :: pattern where
  "FOLLOWED_BY_COLON_REGEX = Pattern True
     (seqs [ DENYLIST_REGEX 1, Opt (Group 2 CLOSING), Lit '':'', OPTIONAL_WHITESPACE,
             Group 3 (Repeat 0 (Some 1) True QUOTE), Group 4 SECRET, Group 5 (GroupRef 3) ])"

text \<open>\<open>{denylist}({closing})?:({whitespace})({quote})({secret})(\4)\<close>, IGNORECASE\<close>

definition FOLLOWED_BY_COLON_QUOTES_REQUIRED_REGEX :: pattern where
  "FOLLOWED_BY_COLON_QUOTES_REQUIRED_REGEX = Pattern True
     (seqs [ DENYLIST_REGEX 1, Opt (Group 2 CLOSING), Lit '':'', Group 3 OPTIONAL_WHITESPACE,
             Group 4 (One QUOTE), Group 5 SECRET, Group 6 (GroupRef 4) ])"

text \<open>\<open>{denylist}({square_brackets})?{optional_whitespace}[!=]{1,2}{optional_whitespace}(@)?(")({secret})(\5)\<close>,
  IGNORECASE\<close>

definition FOLLOWED_BY_EQUAL_SIGNS_OPTIONAL_BRACKETS_OPTIONAL_AT_SIGN_QUOTES_REQUIRED_REGEX :: pattern
where
  "FOLLOWED_BY_EQUAL_SIGNS_OPTIONAL_BRACKETS_OPTIONAL_AT_SIGN_QUOTES_REQUIRED_REGEX = Pattern True
     (seqs [ DENYLIST_REGEX 1, Opt (Group 2 (SQUARE_BRACKETS 3)), OPTIONAL_WHITESPACE,
             Repeat 1 (Some 2) True (IN [Chr (CHR ''!''), Chr (CHR ''='')]), OPTIONAL_WHITESPACE,
             Opt (Group 4 (Lit ''@'')), Group 5 (Lit [CHR 0x22]), Group 6 SECRET,
             Group 7 (GroupRef 5) ])"

text \<open>\<open>{denylist}(.assign)?\((")({secret})(\3)\<close>, compiled without flags\<close>

definition FOLLOWED_BY_OPTIONAL_ASSIGN_QUOTES_REQUIRED_REGEX :: pattern where
  "FOLLOWED_BY_OPTIONAL_ASSIGN_QUOTES_REQUIRED_REGEX = Pattern False
     (seqs [ DENYLIST_REGEX 1, Opt (Group 2 (Seq (One ANY) (Lit ''assign''))), Lit ''('',
             Group 3 (Lit [CHR 0x22]), Group 4 SECRET, Group 5 (GroupRef 3) ])"

text \<open>\<open>{denylist}({closing})?{whitespace}(={1,3}|!==?){whitespace}({quote}?)({secret})(\4)\<close>,
  IGNORECASE\<close>

definition FOLLOWED_BY_EQUAL_SIGNS_REGEX :: pattern where
  "FOLLOWED_BY_EQUAL_SIGNS_REGEX = Pattern True
     (seqs [ DENYLIST_REGEX 1, Opt (Group 2 CLOSING), OPTIONAL_WHITESPACE,
             Group 3 (Alt (Repeat 1 (Some 3) True (IN [Chr (CHR ''='')]))
                          (Seq (Lit ''!='') (optional_chr (CHR ''='')))),
             OPTIONAL_WHITESPACE,
             Group 4 (Repeat 0 (Some 1) True QUOTE), Group 5 SECRET, Group 6 (GroupRef 4) ])"

text \<open>\<open>{denylist}({closing})?{whitespace}(={1,3}|!==?){whitespace}({quote})({secret})(\4)\<close>,
  IGNORECASE\<close>

definition FOLLOWED_BY_EQUAL_SIGNS_QUOTES_REQUIRED_REGEX :: pattern where
  "FOLLOWED_BY_EQUAL_SIGNS_QUOTES_REQUIRED_REGEX = Pattern True
     (seqs [ DENYLIST_REGEX 1, Opt (Group 2 CLOSING), OPTIONAL_WHITESPACE,
             Group 3 (Alt (Repeat 1 (Some 3) True (IN [Chr (CHR ''='')]))
                          (Seq (Lit ''!='') (optional_chr (CHR ''='')))),
             OPTIONAL_WHITESPACE,
             Group 4 (One QUOTE), Group 5 SECRET, Group 6 (GroupRef 4) ])"

text \<open>\<open>({quote})({secret})(\1){whitespace}[!=]{2,3}{whitespace}{denylist}\<close> with the
  prefixed denylist, compiled without flags\<close>

definition PRECEDED_BY_EQUAL_COMPARISON_SIGNS_QUOTES_REQUIRED_REGEX :: pattern where
  "PRECEDED_BY_EQUAL_COMPARISON_SIGNS_QUOTES_REQUIRED_REGEX = Pattern False
     (seqs [ Group 1 (One QUOTE), Group 2 SECRET, Group 3 (GroupRef 1), OPTIONAL_WHITESPACE,
             Repeat 2 (Some 3) True (IN [Chr (CHR ''!''), Chr (CHR ''='')]), OPTIONAL_WHITESPACE,
             DENYLIST_REGEX_WITH_PREFIX 4 ])"

text \<open>\<open>{denylist}{nonWhitespace}{whitespace}({quote})({secret})(\2);\<close>, IGNORECASE\<close>

definition FOLLOWED_BY_QUOTES_AND_SEMICOLON_REGEX :: pattern where
  "FOLLOWED_BY_QUOTES_AND_SEMICOLON_REGEX = Pattern True
     (seqs [ DENYLIST_REGEX 1, OPTIONAL_NON_WHITESPACE, OPTIONAL_WHITESPACE,
             Group 2 (One QUOTE), Group 3 SECRET, Group 4 (GroupRef 2), Lit '';'' ])"

text \<open>\<open>{denylist}({closing})?{whitespace}=>?{whitespace}({quote})({secret})(\3)\<close>,
  IGNORECASE\<close>

definition FOLLOWED_BY_ARROW_FUNCTION_SIGN_QUOTES_REQUIRED_REGEX :: pattern where
  "FOLLOWED_BY_ARROW_FUNCTION_SIGN_QUOTES_REQUIRED_REGEX = Pattern True
     (seqs [ DENYLIST_REGEX 1, Opt (Group 2 CLOSING), OPTIONAL_WHITESPACE,
             Lit ''='', optional_chr (CHR ''>''), OPTIONAL_WHITESPACE,
             Group 3 (One QUOTE), Group 4 SECRET, Group 5 (GroupRef 3) ])"

text \<open>\<open>data\.put\({whitespace}{quote}{denylist}{quote}{whitespace},{whitespace}{quote}({secret}){quote}{whitespace}\)\<close>
  with the prefixed denylist, IGNORECASE\<close>

definition DATA_PUT_PASSWORD_REGEX :: pattern where
  "DATA_PUT_PASSWORD_REGEX = Pattern True
     (seqs [ Lit ''data.put('', OPTIONAL_WHITESPACE, One QUOTE, DENYLIST_REGEX_WITH_PREFIX 1,
             One QUOTE, OPTIONAL_WHITESPACE, Lit '','', OPTIONAL_WHITESPACE, One QUOTE,
             Group 2 SECRET, One QUOTE, OPTIONAL_WHITESPACE, Lit '')'' ])"

text \<open>A rule set is a dict from compiled expression to group number; its items come in
  insertion order, so it is a list of pairs.\<close>

type_synonym rule_set = "(pattern \<times> nat) list"

definition CONFIG_DENYLIST_REGEX_TO_GROUP :: rule_set where
  "CONFIG_DENYLIST_REGEX_TO_GROUP =
    [ (FOLLOWED_BY_COLON_REGEX, 4),
      (PRECEDED_BY_EQUAL_COMPARISON_SIGNS_QUOTES_REQUIRED_REGEX, 2),
      (FOLLOWED_BY_EQUAL_SIGNS_REGEX, 5),
      (FOLLOWED_BY_QUOTES_AND_SEMICOLON_REGEX, 3) ]"

definition GOLANG_DENYLIST_REGEX_TO_GROUP :: rule_set where
  "GOLANG_DENYLIST_REGEX_TO_GROUP =
    [ (FOLLOWED_BY_COLON_EQUAL_SIGNS_REGEX, 4),
      (PRECEDED_BY_EQUAL_COMPARISON_SIGNS_QUOTES_REQUIRED_REGEX, 2),
      (FOLLOWED_BY_EQUAL_SIGNS_REGEX, 5),
      (FOLLOWED_BY_QUOTES_AND_SEMICOLON_REGEX, 3) ]"

definition COMMON_C_DENYLIST_REGEX_TO_GROUP :: rule_set where
  "COMMON_C_DENYLIST_REGEX_TO_GROUP =
    [ (FOLLOWED_BY_EQUAL_SIGNS_OPTIONAL_BRACKETS_OPTIONAL_AT_SIGN_QUOTES_REQUIRED_REGEX, 6) ]"

definition C_PLUS_PLUS_REGEX_TO_GROUP :: rule_set where
  "C_PLUS_PLUS_REGEX_TO_GROUP =
    [ (FOLLOWED_BY_OPTIONAL_ASSIGN_QUOTES_REQUIRED_REGEX, 4),
      (FOLLOWED_BY_EQUAL_SIGNS_QUOTES_REQUIRED_REGEX, 5) ]"

definition QUOTES_REQUIRED_DENYLIST_REGEX_TO_GROUP :: rule_set where
  "QUOTES_REQUIRED_DENYLIST_REGEX_TO_GROUP =
    [ (FOLLOWED_BY_COLON_QUOTES_REQUIRED_REGEX, 5),
      (PRECEDED_BY_EQUAL_COMPARISON_SIGNS_QUOTES_REQUIRED_REGEX, 2),
      (FOLLOWED_BY_EQUAL_SIGNS_QUOTES_REQUIRED_REGEX, 5),
      (FOLLOWED_BY_QUOTES_AND_SEMICOLON_REGEX, 3),
      (FOLLOWED_BY_ARROW_FUNCTION_SIGN_QUOTES_REQUIRED_REGEX, 4),
      (DATA_PUT_PASSWORD_REGEX, 2) ]"

definition TERRAFORM_DENYLIST_REGEX_TO_GROUP :: rule_set where
  "TERRAFORM_DENYLIST_REGEX_TO_GROUP =
     QUOTES_REQUIRED_DENYLIST_REGEX_TO_GROUP @ [ (FOLLOWED_BY_EQUAL_SIGNS_REGEX, 5) ]"


section \<open>File categories and the filetype table\<close>

text \<open>
  Modelled from the spec: the enum \<open>FileType\<close> of \<open>detect_secrets/util/filetype.py\<close>, which
  is not among the sources. Section 6 of the specification lists the categories the
  classifier returns "at least"; \<open>UNLISTED n\<close> stands for any further member of the enum.
\<close>

datatype FileType =
    GO | C | C_PLUS_PLUS | OBJECTIVE_C | C_SHARP | JAVA | JAVASCRIPT | PYTHON | SWIFT | CLS
  | JSON | YAML | CONFIG | INI | PROPERTIES | TOML | TERRAFORM | UNKNOWN | UNLISTED nat

definition REGEX_BY_FILETYPE :: "(FileType \<times> rule_set) list" where
  "REGEX_BY_FILETYPE =
    [ (GO, GOLANG_DENYLIST_REGEX_TO_GROUP),
      (OBJECTIVE_C, COMMON_C_DENYLIST_REGEX_TO_GROUP),
      (C_SHARP, COMMON_C_DENYLIST_REGEX_TO_GROUP),
      (C, COMMON_C_DENYLIST_REGEX_TO_GROUP),
      (C_PLUS_PLUS, C_PLUS_PLUS_REGEX_TO_GROUP),
      (CLS, QUOTES_REQUIRED_DENYLIST_REGEX_TO_GROUP),
      (JAVA, QUOTES_REQUIRED_DENYLIST_REGEX_TO_GROUP),
      (JAVASCRIPT, QUOTES_REQUIRED_DENYLIST_REGEX_TO_GROUP),
      (PYTHON, QUOTES_REQUIRED_DENYLIST_REGEX_TO_GROUP),
      (SWIFT, QUOTES_REQUIRED_DENYLIST_REGEX_TO_GROUP),
      (TERRAFORM, TERRAFORM_DENYLIST_REGEX_TO_GROUP),
      (JSON, QUOTES_REQUIRED_DENYLIST_REGEX_TO_GROUP),
      (YAML, CONFIG_DENYLIST_REGEX_TO_GROUP),
      (CONFIG, CONFIG_DENYLIST_REGEX_TO_GROUP),
      (INI, CONFIG_DENYLIST_REGEX_TO_GROUP),
      (PROPERTIES, CONFIG_DENYLIST_REGEX_TO_GROUP),
      (TOML, CONFIG_DENYLIST_REGEX_TO_GROUP) ]"

text \<open>\<open>REGEX_BY_FILETYPE.get(filetype, QUOTES_REQUIRED_DENYLIST_REGEX_TO_GROUP)\<close>\<close>

definition regex_by_filetype_get :: "FileType \<Rightarrow> rule_set" where
  "regex_by_filetype_get filetype =
     (case map_of REGEX_BY_FILETYPE filetype of
        Some rs \<Rightarrow> rs
      | None \<Rightarrow> QUOTES_REQUIRED_DENYLIST_REGEX_TO_GROUP)"


section \<open>The keyword detector\<close>

text \<open>The detector's state: the compiled exclusion pattern, if any, with the text it was
  compiled from (\<open>Pattern.pattern\<close>).\<close>

record KeywordDetector =
  keyword_exclude :: "(string \<times> pattern) option"

text \<open>
  \<open>re.compile(text, re.IGNORECASE)\<close> for a pattern supplied by the caller. The parser of
  \<open>re\<close> is a parameter: \<open>parse text\<close> is the program of \<open>text\<close>, or \<open>None\<close> where \<open>re\<close> raises
  \<open>re.error\<close>.
\<close>

definition re_compile :: "(string \<Rightarrow> regex option) \<Rightarrow> string \<Rightarrow> error + (string \<times> pattern)" where
  "re_compile parse text =
     (case parse text of None \<Rightarrow> Inl ReError | Some r \<Rightarrow> Inr (text, Pattern True r))"

text \<open>\<open>KeywordDetector.__init__\<close>: \<open>None\<close> and the empty string are both falsy.\<close>

definition KeywordDetector_init ::
  "(string \<Rightarrow> regex option) \<Rightarrow> string option \<Rightarrow> error + KeywordDetector"
where
  "KeywordDetector_init parse arg =
     (case arg of
        None \<Rightarrow> Inr \<lparr>keyword_exclude = None\<rparr>
      | Some text \<Rightarrow>
          if text = [] then Inr \<lparr>keyword_exclude = None\<rparr>
          else (case re_compile parse text of
                  Inl e \<Rightarrow> Inl e
                | Inr p \<Rightarrow> Inr \<lparr>keyword_exclude = Some p\<rparr>))"

text \<open>\<open>any(allowed.lower() in string.lower() for allowed in ALLOWLIST)\<close>\<close>

definition allowlisted :: "string \<Rightarrow> bool" where
  "allowlisted s = list_ex (\<lambda>allowed. contains (lower s) (lower allowed)) ALLOWLIST"

text \<open>\<open>self.keyword_exclude and self.keyword_exclude.search(string)\<close>\<close>

definition excluded :: "KeywordDetector \<Rightarrow> string \<Rightarrow> bool" where
  "excluded d s =
     (case keyword_exclude d of
        None \<Rightarrow> False
      | Some (text, p) \<Rightarrow> search p s \<noteq> None)"

text \<open>
  What a generator did: the values it yielded, in order, and the exception that ended it,
  if one did. A yielded value is \<open>None\<close> when \<open>Match.group\<close> returned \<open>None\<close>.
\<close>

type_synonym generated = "string option list \<times> error option"

text \<open>The inner loop over the items of one rule set; it carries \<open>has_results\<close>.\<close>

fun scan_families :: "string \<Rightarrow> rule_set \<Rightarrow> bool \<Rightarrow> string option list \<times> bool \<times> error option" where
  "scan_families s [] has_results = ([], has_results, None)"
| "scan_families s ((denylist_regex, group_number) # others) has_results =
     (case search denylist_regex s of
        None \<Rightarrow> scan_families s others has_results
      | Some m \<Rightarrow>
          (case group m group_number of
             Inl e \<Rightarrow> ([], True, Some e)
           | Inr v \<Rightarrow>
               (case scan_families s others True of (ys, h, e) \<Rightarrow> (v # ys, h, e))))"

text \<open>The outer loop over \<open>attempts\<close>, left at the first rule set with a result.\<close>

fun scan_attempts :: "string \<Rightarrow> rule_set list \<Rightarrow> bool \<Rightarrow> generated" where
  "scan_attempts s [] has_results = ([], None)"
| "scan_attempts s (denylist_regex_to_group # others) has_results =
     (case scan_families s denylist_regex_to_group has_results of
        (ys, h, Some e) \<Rightarrow> (ys, Some e)
      | (ys, h, None) \<Rightarrow>
          if h then (ys, None)
          else (case scan_attempts s others h of (zs, e) \<Rightarrow> (ys @ zs, e)))"

text \<open>\<open>KeywordDetector.analyze_string\<close>\<close>

definition analyze_string :: "KeywordDetector \<Rightarrow> string \<Rightarrow> rule_set option \<Rightarrow> generated" where
  "analyze_string d s denylist_regex_to_group =
     (if allowlisted s then ([], None)
      else if excluded d s then ([], None)
      else scan_attempts s
             (case denylist_regex_to_group of
                None \<Rightarrow> [QUOTES_REQUIRED_DENYLIST_REGEX_TO_GROUP]
              | Some rs \<Rightarrow> [rs])
             False)"


section \<open>The plugin contract\<close>

definition secret_type :: string where
  "secret_type = ''Secret Keyword''"

record PotentialSecret =
  detector_type :: string
  filename :: string
  secret_value :: "string option"
  line_number :: int

text \<open>The context windows are passed through and not inspected by the keyword detector.\<close>

typedecl CodeSnippet

text \<open>
  Modelled from the spec: \<open>BasePlugin.analyze_line\<close> of \<open>detect_secrets/plugins/base.py\<close>,
  which is not among the sources. By section 4.4 it invokes the family-matching algorithm on
  the line and wraps each candidate into a Potential Secret tagged with the detector's
  identifier, the filename and the line number; no candidate gives the empty set. An
  exception of the generator leaves the call.
\<close>

definition BasePlugin_analyze_line ::
  "KeywordDetector \<Rightarrow> string \<Rightarrow> string \<Rightarrow> int \<Rightarrow> CodeSnippet option \<Rightarrow> CodeSnippet option \<Rightarrow>
   rule_set option \<Rightarrow> error + PotentialSecret set"
where
  "BasePlugin_analyze_line d fname line lineno context raw_context denylist_regex_to_group =
     (case analyze_string d line denylist_regex_to_group of
        (ys, Some e) \<Rightarrow> Inl e
      | (ys, None) \<Rightarrow>
          Inr (set (map (\<lambda>candidate.
                 \<lparr>detector_type = secret_type, filename = fname, secret_value = candidate,
                  line_number = lineno\<rparr>) ys)))"

text \<open>\<open>KeywordDetector.analyze_line\<close>; the file-type classifier \<open>determine_file_type\<close> of
  \<open>detect_secrets/util/filetype.py\<close> is a parameter.\<close>

definition analyze_line ::
  "(string \<Rightarrow> FileType) \<Rightarrow> KeywordDetector \<Rightarrow> string \<Rightarrow> string \<Rightarrow> int \<Rightarrow>
   CodeSnippet option \<Rightarrow> CodeSnippet option \<Rightarrow> error + PotentialSecret set"
where
  "analyze_line determine_file_type d fname line lineno context raw_context =
     (let filetype = determine_file_type fname;
          denylist_regex_to_group = regex_by_filetype_get filetype
      in BasePlugin_analyze_line d fname line lineno context raw_context
           (Some denylist_regex_to_group))"

text \<open>\<open>KeywordDetector.json\<close>: the entry \<open>keyword_exclude\<close>, then the entries of
  \<open>super().json()\<close> (a parameter), which override on equal keys.\<close>

definition json :: "(string \<rightharpoonup> string) \<Rightarrow> KeywordDetector \<Rightarrow> (string \<rightharpoonup> string)" where
  "json super_json d =
     [''keyword_exclude'' \<mapsto> (case keyword_exclude d of Some (text, p) \<Rightarrow> text | None \<Rightarrow> [])]
       ++ super_json"


section \<open>The verification subsystem\<close>

datatype VerifiedResult = VERIFIED_TRUE | VERIFIED_FALSE | UNVERIFIED

text \<open>
  Modelled from the spec: the verification transport of section 6, a single POST to a fixed
  URL of which the caller observes a status code, or that the authority could not be
  reached, or that the request timed out.
\<close>

datatype transport_outcome = Status nat | Unreachable | TimedOut

text \<open>A candidate is supplied as text or as raw bytes.\<close>

datatype candidate = Text string | Raw "nat list"

definition normalize :: "(nat list \<Rightarrow> string) \<Rightarrow> candidate \<Rightarrow> string" where
  "normalize decode c = (case c of Text t \<Rightarrow> t | Raw bs \<Rightarrow> decode bs)"

definition is_success :: "nat \<Rightarrow> bool" where
  "is_success st = (200 \<le> st \<and> st < 300)"

definition is_authentication_failure :: "nat \<Rightarrow> bool" where
  "is_authentication_failure st = (400 \<le> st \<and> st < 500)"

text \<open>
  Modelled from the spec: \<open>verify\<close> of a verifying detector (\<open>IbmCloudIamDetector.verify\<close>
  of \<open>detect_secrets/plugins/ibm_cloud_iam.py\<close>, of which only the test is among the
  sources). By section 4.5 a response indicating success gives \<open>VERIFIED_TRUE\<close>, one
  indicating authentication failure (the client-error class of section 6; the test answers
  400) gives \<open>VERIFIED_FALSE\<close>, and any network failure, timeout or unexpected status
  gives \<open>UNVERIFIED\<close>; text and bytes are normalised first.
\<close>

definition verify ::
  "(string \<Rightarrow> transport_outcome) \<Rightarrow> (nat list \<Rightarrow> string) \<Rightarrow> candidate \<Rightarrow> VerifiedResult"
where
  "verify post decode c =
     (case post (normalize decode c) of
        Status st \<Rightarrow>
          if is_success st then VERIFIED_TRUE
          else if is_authentication_failure st then VERIFIED_FALSE
          else UNVERIFIED
      | Unreachable \<Rightarrow> UNVERIFIED
      | TimedOut \<Rightarrow> UNVERIFIED)"


section \<open>Notions the properties are stated with\<close>

text \<open>A family of a rule set matches a line when its expression is found in it.\<close>

definition family_matches :: "string \<Rightarrow> pattern \<times> nat \<Rightarrow> bool" where
  "family_matches s f = (search (fst f) s \<noteq> None)"

text \<open>The designated capture group of a family on a line it matches.\<close>

definition designated_group :: "string \<Rightarrow> pattern \<times> nat \<Rightarrow> string option" where
  "designated_group s f =
     (case search (fst f) s of
        None \<Rightarrow> None
      | Some m \<Rightarrow> (case group m (snd f) of Inl e \<Rightarrow> None | Inr v \<Rightarrow> v))"

text \<open>Every group number of the rule set is a group of its expression.\<close>

definition valid_rule_set :: "rule_set \<Rightarrow> bool" where
  "valid_rule_set rs = list_all (\<lambda>f. snd f \<le> groups (prog (fst f))) rs"

text \<open>The detector that \<open>KeywordDetector()\<close> constructs.\<close>

definition default_detector :: KeywordDetector where
  "default_detector = \<lparr>keyword_exclude = None\<rparr>"

text \<open>The characters on which the tables are evaluated for the examples below.\<close>

definition sample_chars :: string where
  "sample_chars =
     ''abcdefghijklmnopqrstuvwxyz0123456789_ !#$%&()*+,-./:;<=>?@[]^{|}~'' @
     [CHR 0x09, CHR 0x0A, CHR 0x0B, CHR 0x0D, CHR 0x22, CHR 0x27, CHR 0x5C, CHR 0x60]"


section \<open>Character facts for evaluation\<close>

lemma py_lower_capitals:
  "map py_lower ''ABCDEFGHIJKLMNOPQRSTUVWXYZ'' = ''abcdefghijklmnopqrstuvwxyz''"
  "map py_lower [CHR 0xD1, CHR 0xF1] = [CHR 0xF1, CHR 0xF1]"
  by (simp_all add: py_lower_def in_range_def code_def)

lemma py_lower_others: "list_all (\<lambda>c. py_lower c = c) sample_chars"
  by (simp add: sample_chars_def py_lower_def in_range_def code_def)

lemma py_upper_smalls:
  "map py_upper ''abcdefghijklmnopqrstuvwxyz'' = ''ABCDEFGHIJKLMNOPQRSTUVWXYZ''"
  "map py_upper [CHR 0xD1, CHR 0xF1] = [CHR 0xD1, CHR 0xD1]"
  by (simp_all add: py_upper_def in_range_def code_def)

lemma py_upper_others:
  "list_all (\<lambda>c. py_upper c = c) (''ABCDEFGHIJKLMNOPQRSTUVWXYZ'' @ drop 26 sample_chars)"
  by (simp add: sample_chars_def py_upper_def in_range_def code_def)

lemma is_word_holds:
  "list_all is_word (''ABCDEFGHIJKLMNOPQRSTUVWXYZ'' @ take 37 sample_chars @ [CHR 0xD1, CHR 0xF1])"
  by (simp add: sample_chars_def is_word_def py_isalnum_def in_range_def code_def)

lemma is_word_fails: "list_all (\<lambda>c. \<not> is_word c) (drop 37 sample_chars)"
  by (simp add: sample_chars_def is_word_def py_isalnum_def in_range_def code_def)

lemma py_isspace_holds: "list_all py_isspace [CHR 0x20, CHR 0x09, CHR 0x0A, CHR 0x0B, CHR 0x0D]"
  by (simp add: py_isspace_def in_range_def code_def)

lemma py_isspace_fails:
  "list_all (\<lambda>c. \<not> py_isspace c)
     (''ABCDEFGHIJKLMNOPQRSTUVWXYZabcdefghijklmnopqrstuvwxyz0123456789_'' @
      ''!#$%&()*+,-./:;<=>?@[]^{|}~'' @ [CHR 0x22, CHR 0x27, CHR 0x5C, CHR 0x60])"
  by (simp add: py_isspace_def in_range_def code_def)

lemmas char_facts =
  py_lower_capitals [simplified] py_lower_others [unfolded sample_chars_def, simplified]
  py_upper_smalls [simplified] py_upper_others [unfolded sample_chars_def, simplified]
  is_word_holds [unfolded sample_chars_def, simplified]
  is_word_fails [unfolded sample_chars_def, simplified]
  py_isspace_holds [simplified] py_isspace_fails [simplified]

lemmas fragment_defs =
  optional_chr_def star_def DENYLIST_def CLOSING_def AFFIX_REGEX_def DENYLIST_REGEX_def
  DENYLIST_REGEX_WITH_PREFIX_def OPTIONAL_WHITESPACE_def OPTIONAL_NON_WHITESPACE_def QUOTE_def
  SECRET_def SQUARE_BRACKETS_def

lemmas engine_defs =
  search_def group_def in_set_def chr_eq_def at_boundary_def set_group_def

lemmas family_defs =
  FOLLOWED_BY_COLON_EQUAL_SIGNS_REGEX_def FOLLOWED_BY_COLON_REGEX_def
  FOLLOWED_BY_COLON_QUOTES_REQUIRED_REGEX_def
  FOLLOWED_BY_EQUAL_SIGNS_OPTIONAL_BRACKETS_OPTIONAL_AT_SIGN_QUOTES_REQUIRED_REGEX_def
  FOLLOWED_BY_OPTIONAL_ASSIGN_QUOTES_REQUIRED_REGEX_def FOLLOWED_BY_EQUAL_SIGNS_REGEX_def
  FOLLOWED_BY_EQUAL_SIGNS_QUOTES_REQUIRED_REGEX_def
  PRECEDED_BY_EQUAL_COMPARISON_SIGNS_QUOTES_REQUIRED_REGEX_def
  FOLLOWED_BY_QUOTES_AND_SEMICOLON_REGEX_def
  FOLLOWED_BY_ARROW_FUNCTION_SIGN_QUOTES_REQUIRED_REGEX_def DATA_PUT_PASSWORD_REGEX_def

lemmas rule_set_defs =
  CONFIG_DENYLIST_REGEX_TO_GROUP_def GOLANG_DENYLIST_REGEX_TO_GROUP_def
  COMMON_C_DENYLIST_REGEX_TO_GROUP_def C_PLUS_PLUS_REGEX_TO_GROUP_def
  QUOTES_REQUIRED_DENYLIST_REGEX_TO_GROUP_def TERRAFORM_DENYLIST_REGEX_TO_GROUP_def

lemmas detector_defs =
  analyze_string_def allowlisted_def ALLOWLIST_def lower_def excluded_def

lemmas evaluation = in_range_def code_def char_facts fragment_defs engine_defs family_defs rule_set_defs detector_defs

section \<open>General facts\<close>

lemma startswith_iff: "startswith s p \<longleftrightarrow> (\<exists>post. s = p @ post)"
  by (induction s p rule: startswith.induct) auto

lemma contains_iff: "contains s sub \<longleftrightarrow> (\<exists>pre post. s = pre @ sub @ post)"
proof (induction s)
  case Nil
  then show ?case by auto
next
  case (Cons c cs)
  show ?case
  proof
    assume "contains (c # cs) sub"
    then consider "startswith (c # cs) sub" | "contains cs sub" by auto
    then show "\<exists>pre post. c # cs = pre @ sub @ post"
    proof cases
      case 1
      then obtain post where "c # cs = sub @ post" by (auto simp: startswith_iff)
      then have "c # cs = [] @ sub @ post" by simp
      then show ?thesis by blast
    next
      case 2
      then obtain pre post where "cs = pre @ sub @ post" using Cons.IH by blast
      then have "c # cs = (c # pre) @ sub @ post" by simp
      then show ?thesis by blast
    qed
  next
    assume "\<exists>pre post. c # cs = pre @ sub @ post"
    then obtain pre post where eq: "c # cs = pre @ sub @ post" by blast
    show "contains (c # cs) sub"
    proof (cases pre)
      case Nil
      with eq have "startswith (c # cs) sub" by (auto simp: startswith_iff)
      then show ?thesis by simp
    next
      case (Cons x pre')
      with eq have "cs = pre' @ sub @ post" by simp
      then have "contains cs sub" using Cons.IH by blast
      then show ?thesis by simp
    qed
  qed
qed

lemma allowlisted_iff:
  "allowlisted s \<longleftrightarrow> (\<exists>allowed \<in> set ALLOWLIST. \<exists>pre post. lower s = pre @ lower allowed @ post)"
  by (simp add: allowlisted_def list_ex_iff contains_iff)

lemma search_at_ngroups: "search_at p b s = Some m \<Longrightarrow> ngroups m = groups (prog p)"
  by (induction p b s rule: search_at.induct) (auto split: list.splits)

lemma search_ngroups: "search p s = Some m \<Longrightarrow> ngroups m = groups (prog p)"
  by (simp add: search_def search_at_ngroups)

lemma scan_families_all:
  "valid_rule_set rs \<Longrightarrow>
   scan_families s rs h =
     (map (designated_group s) (filter (family_matches s) rs),
      h \<or> list_ex (family_matches s) rs, None)"
proof (induction rs arbitrary: h)
  case Nil
  then show ?case by simp
next
  case (Cons f rs)
  obtain p g where f: "f = (p, g)" by (cases f)
  from Cons.prems have g: "g \<le> groups (prog p)" and rs: "valid_rule_set rs"
    by (simp_all add: valid_rule_set_def f)
  show ?case
  proof (cases "search p s")
    case None
    then show ?thesis
      using Cons.IH [OF rs, of h] by (simp add: f family_matches_def)
  next
    case (Some m)
    then have "ngroups m = groups (prog p)" by (rule search_ngroups)
    with g have "\<exists>v. group m g = Inr v"
      by (cases "g = 0") (simp_all add: group_def)
    then obtain v where v: "group m g = Inr v" by blast
    show ?thesis
      using Cons.IH [OF rs, of True] Some v
      by (simp add: f family_matches_def designated_group_def)
  qed
qed

lemma analyze_string_yields_all:
  assumes "\<not> allowlisted s" and "\<not> excluded d s" and "valid_rule_set rs"
  shows "analyze_string d s (Some rs) =
           (map (designated_group s) (filter (family_matches s) rs), None)"
proof -
  have "scan_attempts s [rs] False =
          (map (designated_group s) (filter (family_matches s) rs), None)"
    by (simp add: scan_families_all [OF assms(3)])
  with assms(1,2) show ?thesis
    by (simp add: analyze_string_def)
qed

section \<open>Evaluations on concrete lines\<close>

lemma not_excluded_default: "\<not> excluded default_detector s"
  by (simp add: excluded_def default_detector_def)

lemma module_rule_sets_valid:
  "valid_rule_set CONFIG_DENYLIST_REGEX_TO_GROUP"
  "valid_rule_set GOLANG_DENYLIST_REGEX_TO_GROUP"
  "valid_rule_set COMMON_C_DENYLIST_REGEX_TO_GROUP"
  "valid_rule_set C_PLUS_PLUS_REGEX_TO_GROUP"
  "valid_rule_set QUOTES_REQUIRED_DENYLIST_REGEX_TO_GROUP"
  "valid_rule_set TERRAFORM_DENYLIST_REGEX_TO_GROUP"
  by (simp_all add: valid_rule_set_def rule_set_defs family_defs fragment_defs)

text \<open>The line \<open>"abc" == password: "xyz"\<close> under the quote-required rule set.\<close>

lemma colon_and_comparison_line:
  \<open>analyze_string default_detector ''"abc" == password: "xyz"''
     (Some QUOTES_REQUIRED_DENYLIST_REGEX_TO_GROUP) = ([Some ''xyz'', Some ''abc''], None)\<close>
  by (simp add: default_detector_def evaluation)

lemma colon_and_comparison_line_matches:
  \<open>family_matches ''"abc" == password: "xyz"'' (FOLLOWED_BY_COLON_QUOTES_REQUIRED_REGEX, 5)\<close>
  \<open>family_matches ''"abc" == password: "xyz"''
     (PRECEDED_BY_EQUAL_COMPARISON_SIGNS_QUOTES_REQUIRED_REGEX, 2)\<close>
  by (simp_all add: family_matches_def evaluation)

lemma colon_and_comparison_line_free: \<open>\<not> allowlisted ''"abc" == password: "xyz"''\<close>
  by (simp add: evaluation)

text \<open>The line \<open>my_password := "hunter2"\<close>.\<close>

lemma hunter2_line_go:
  \<open>family_matches ''my_password := "hunter2"'' (FOLLOWED_BY_COLON_EQUAL_SIGNS_REGEX, 4)\<close>
  \<open>designated_group ''my_password := "hunter2"'' (FOLLOWED_BY_COLON_EQUAL_SIGNS_REGEX, 4) =
     Some ''hunter2''\<close>
  \<open>\<not> family_matches ''my_password := "hunter2"''
     (PRECEDED_BY_EQUAL_COMPARISON_SIGNS_QUOTES_REQUIRED_REGEX, 2)\<close>
  \<open>\<not> family_matches ''my_password := "hunter2"'' (FOLLOWED_BY_EQUAL_SIGNS_REGEX, 5)\<close>
  \<open>\<not> family_matches ''my_password := "hunter2"'' (FOLLOWED_BY_QUOTES_AND_SEMICOLON_REGEX, 3)\<close>
  by (simp_all add: family_matches_def designated_group_def evaluation)

lemma hunter2_line_quotes_required:
  \<open>\<not> family_matches ''my_password := "hunter2"'' (FOLLOWED_BY_COLON_QUOTES_REQUIRED_REGEX, 5)\<close>
  \<open>\<not> family_matches ''my_password := "hunter2"''
     (FOLLOWED_BY_EQUAL_SIGNS_QUOTES_REQUIRED_REGEX, 5)\<close>
  \<open>\<not> family_matches ''my_password := "hunter2"''
     (FOLLOWED_BY_ARROW_FUNCTION_SIGN_QUOTES_REQUIRED_REGEX, 4)\<close>
  \<open>\<not> family_matches ''my_password := "hunter2"'' (DATA_PUT_PASSWORD_REGEX, 2)\<close>
  by (simp_all add: family_matches_def evaluation)

lemma hunter2_line_free: \<open>\<not> allowlisted ''my_password := "hunter2"''\<close>
  by (simp add: evaluation)

lemma regex_by_filetype_get_simps:
  "regex_by_filetype_get GO = GOLANG_DENYLIST_REGEX_TO_GROUP"
  "regex_by_filetype_get JSON = QUOTES_REQUIRED_DENYLIST_REGEX_TO_GROUP"
  "regex_by_filetype_get UNKNOWN = QUOTES_REQUIRED_DENYLIST_REGEX_TO_GROUP"
  "regex_by_filetype_get (UNLISTED n) = QUOTES_REQUIRED_DENYLIST_REGEX_TO_GROUP"
  "regex_by_filetype_get CONFIG = CONFIG_DENYLIST_REGEX_TO_GROUP"
  by (simp_all add: regex_by_filetype_get_def REGEX_BY_FILETYPE_def)

section \<open>First match and the families of a rule set\<close>

text \<open>
  Claim C1, as amended. For every input line that is neither allowlisted nor excluded and
  every rule set whose group numbers are valid, \<open>analyze_string\<close> evaluates every Pattern
  Family of the rule set, in the rule set's order, and yields the designated capture group
  of each family that matches the line: as many candidates as there are matching families,
  the first of them from the family that comes first.
\<close>

theorem analyze_string_yields_every_matching_family:
  assumes "\<not> allowlisted s" and "\<not> excluded d s" and "valid_rule_set rs"
  shows "analyze_string d s (Some rs) =
           (map (designated_group s) (filter (family_matches s) rs), None)"
  using assms by (rule analyze_string_yields_all)

theorem analyze_string_yields_every_matching_family_witness:
  \<open>\<not> allowlisted ''"abc" == password: "xyz"'' \<and>
   \<not> excluded default_detector ''"abc" == password: "xyz"'' \<and>
   valid_rule_set QUOTES_REQUIRED_DENYLIST_REGEX_TO_GROUP \<and>
   map (designated_group ''"abc" == password: "xyz"'')
     (filter (family_matches ''"abc" == password: "xyz"'')
        QUOTES_REQUIRED_DENYLIST_REGEX_TO_GROUP) = [Some ''xyz'', Some ''abc'']\<close>
  using analyze_string_yields_every_matching_family
          [OF colon_and_comparison_line_free not_excluded_default module_rule_sets_valid(5)]
        colon_and_comparison_line colon_and_comparison_line_free not_excluded_default
        module_rule_sets_valid(5)
  by simp

text \<open>
  Claim C1, as stated, fails on the line \<open>"abc" == password: "xyz"\<close>: the colon family and
  the right-to-left comparison family of the quote-required rule set both match it, and
  \<open>analyze_string\<close> yields two candidates, one of each.
\<close>

theorem first_match_wins_counterexample:
  \<open>family_matches ''"abc" == password: "xyz"'' (FOLLOWED_BY_COLON_QUOTES_REQUIRED_REGEX, 5) \<and>
   family_matches ''"abc" == password: "xyz"''
     (PRECEDED_BY_EQUAL_COMPARISON_SIGNS_QUOTES_REQUIRED_REGEX, 2) \<and>
   analyze_string default_detector ''"abc" == password: "xyz"''
     (Some QUOTES_REQUIRED_DENYLIST_REGEX_TO_GROUP) = ([Some ''xyz'', Some ''abc''], None)\<close>
  using colon_and_comparison_line colon_and_comparison_line_matches by simp


section \<open>The allowlist veto\<close>

text \<open>
  Claim C2. For every line that contains an Allowlist entry as a case-insensitive substring
  (the lowered entry occurs somewhere in the lowered line), \<open>analyze_string\<close> yields no
  candidate, whatever the detector's exclusion pattern and the rule set, and so
  \<open>analyze_line\<close> returns the empty set, whatever the file category.
\<close>

theorem allowlist_veto:
  assumes "allowed \<in> set ALLOWLIST" and "lower line = pre @ lower allowed @ post"
  shows "analyze_string d line denylist_regex_to_group = ([], None) \<and>
         analyze_line determine_file_type d fname line lineno context raw_context = Inr {}"
proof -
  from assms have "allowlisted line"
    unfolding allowlisted_iff by blast
  then have "analyze_string d line rs = ([], None)" for rs
    by (simp add: analyze_string_def)
  then show ?thesis
    by (simp add: analyze_line_def BasePlugin_analyze_line_def)
qed

theorem allowlist_veto_witness:
  \<open>''tokenendpoint'' \<in> set ALLOWLIST \<and>
   lower ''tokenEndpoint=verysecretvalue'' = [] @ lower ''tokenendpoint'' @ ''=verysecretvalue'' \<and>
   analyze_string default_detector ''tokenEndpoint=verysecretvalue''
     (Some CONFIG_DENYLIST_REGEX_TO_GROUP) = ([], None) \<and>
   analyze_line (\<lambda>f. CONFIG) default_detector ''settings.ini'' ''tokenEndpoint=verysecretvalue''
     1 None None = Inr {}\<close>
proof -
  have a: "''tokenendpoint'' \<in> set ALLOWLIST"
    by (simp add: ALLOWLIST_def)
  have b: "lower ''tokenEndpoint=verysecretvalue'' =
             [] @ lower ''tokenendpoint'' @ ''=verysecretvalue''"
    by (simp add: lower_def char_facts)
  show ?thesis
    using a b allowlist_veto [OF a b] by simp
qed


section \<open>The filetype table\<close>

text \<open>
  Claim C3. The rule set \<open>analyze_line\<close> uses is the table's entry for the category of the
  filename, so two classifiers that give the filename the same category give the same
  result on every line; the categories without an entry are \<open>UNKNOWN\<close> and the unlisted
  ones, and for each of them the rule set is the quote-required default, so that
  \<open>analyze_line\<close> behaves as it does for \<open>UNKNOWN\<close>.
\<close>

theorem rule_set_by_category:
  "analyze_line determine_file_type d fname line lineno context raw_context =
     BasePlugin_analyze_line d fname line lineno context raw_context
       (Some (regex_by_filetype_get (determine_file_type fname))) \<and>
   (determine_file_type fname = determine_file_type' fname \<longrightarrow>
      analyze_line determine_file_type d fname line lineno context raw_context =
      analyze_line determine_file_type' d fname line lineno context raw_context) \<and>
   (map_of REGEX_BY_FILETYPE filetype = None \<longleftrightarrow>
      filetype = UNKNOWN \<or> (\<exists>n. filetype = UNLISTED n)) \<and>
   (map_of REGEX_BY_FILETYPE filetype = None \<longrightarrow>
      regex_by_filetype_get filetype = QUOTES_REQUIRED_DENYLIST_REGEX_TO_GROUP \<and>
      regex_by_filetype_get filetype = regex_by_filetype_get UNKNOWN) \<and>
   (map_of REGEX_BY_FILETYPE (determine_file_type fname) = None \<longrightarrow>
      analyze_line determine_file_type d fname line lineno context raw_context =
      analyze_line (\<lambda>f. UNKNOWN) d fname line lineno context raw_context)"
proof -
  have unmapped: "map_of REGEX_BY_FILETYPE ft = None \<longleftrightarrow> ft = UNKNOWN \<or> (\<exists>n. ft = UNLISTED n)"
    for ft
    by (cases ft) (simp_all add: REGEX_BY_FILETYPE_def)
  have default: "regex_by_filetype_get ft = QUOTES_REQUIRED_DENYLIST_REGEX_TO_GROUP"
    if "map_of REGEX_BY_FILETYPE ft = None" for ft
    using that by (simp add: regex_by_filetype_get_def)
  have unknown: "map_of REGEX_BY_FILETYPE UNKNOWN = None"
    by (simp add: unmapped)
  show ?thesis
    using unmapped [of filetype] default [of filetype] default [OF unknown]
      default [of "determine_file_type fname"]
    by (auto simp: analyze_line_def Let_def)
qed

theorem rule_set_by_category_witness:
  \<open>map_of REGEX_BY_FILETYPE (UNLISTED 7) = None \<and>
   regex_by_filetype_get (UNLISTED 7) = QUOTES_REQUIRED_DENYLIST_REGEX_TO_GROUP \<and>
   regex_by_filetype_get (UNLISTED 7) = regex_by_filetype_get UNKNOWN \<and>
   analyze_line (\<lambda>f. UNLISTED 7) default_detector ''notes.txt'' ''my_password := "hunter2"'' 1
     None None =
   analyze_line (\<lambda>f. UNKNOWN) default_detector ''notes.txt'' ''my_password := "hunter2"'' 1
     None None\<close>
proof -
  have a: "map_of REGEX_BY_FILETYPE (UNLISTED 7) = None"
    by (simp add: REGEX_BY_FILETYPE_def)
  note t = rule_set_by_category
      [of "\<lambda>f. UNLISTED 7" default_detector "''notes.txt''" \<open>''my_password := "hunter2"''\<close> 1
          None None "\<lambda>f. UNLISTED 7" "UNLISTED 7"]
  show ?thesis
    using a t by blast
qed


section \<open>The colon-equals scenario\<close>

text \<open>
  Claim C6. On the line \<open>my_password := "hunter2"\<close> the rule set of category \<open>GO\<close> yields
  exactly one candidate, \<open>hunter2\<close>, the fourth group of the colon-equals family, the only
  family of that rule set that matches; the rule set of category \<open>JSON\<close>, which has no
  colon-equals family, yields no candidate and none of its families matches.
\<close>

theorem colon_equals_scenario:
  \<open>regex_by_filetype_get GO = GOLANG_DENYLIST_REGEX_TO_GROUP \<and>
   analyze_string default_detector ''my_password := "hunter2"''
     (Some (regex_by_filetype_get GO)) = ([Some ''hunter2''], None) \<and>
   filter (family_matches ''my_password := "hunter2"'') (regex_by_filetype_get GO) =
     [(FOLLOWED_BY_COLON_EQUAL_SIGNS_REGEX, 4)] \<and>
   designated_group ''my_password := "hunter2"'' (FOLLOWED_BY_COLON_EQUAL_SIGNS_REGEX, 4) =
     Some ''hunter2'' \<and>
   analyze_line (\<lambda>f. GO) default_detector fname ''my_password := "hunter2"'' lineno
     context raw_context =
     Inr {\<lparr>detector_type = secret_type, filename = fname, secret_value = Some ''hunter2'',
           line_number = lineno\<rparr>} \<and>
   regex_by_filetype_get JSON = QUOTES_REQUIRED_DENYLIST_REGEX_TO_GROUP \<and>
   list_all (\<lambda>f. fst f \<noteq> FOLLOWED_BY_COLON_EQUAL_SIGNS_REGEX) (regex_by_filetype_get JSON) \<and>
   filter (family_matches ''my_password := "hunter2"'') (regex_by_filetype_get JSON) = [] \<and>
   analyze_string default_detector ''my_password := "hunter2"''
     (Some (regex_by_filetype_get JSON)) = ([], None) \<and>
   analyze_line (\<lambda>f. JSON) default_detector fname ''my_password := "hunter2"'' lineno
     context raw_context = Inr {}\<close>
proof -
  let ?line = \<open>''my_password := "hunter2"''\<close>
  have go_matches:
    "filter (family_matches ?line) GOLANG_DENYLIST_REGEX_TO_GROUP =
       [(FOLLOWED_BY_COLON_EQUAL_SIGNS_REGEX, 4)]"
    by (simp add: GOLANG_DENYLIST_REGEX_TO_GROUP_def hunter2_line_go)
  have json_matches:
    "filter (family_matches ?line) QUOTES_REQUIRED_DENYLIST_REGEX_TO_GROUP = []"
    by (simp add: QUOTES_REQUIRED_DENYLIST_REGEX_TO_GROUP_def hunter2_line_go
        hunter2_line_quotes_required)
  have go: "analyze_string default_detector ?line (Some GOLANG_DENYLIST_REGEX_TO_GROUP) =
              ([Some ''hunter2''], None)"
    using analyze_string_yields_all [OF hunter2_line_free not_excluded_default
        module_rule_sets_valid(2)]
    by (simp add: go_matches hunter2_line_go)
  have json: "analyze_string default_detector ?line
                (Some QUOTES_REQUIRED_DENYLIST_REGEX_TO_GROUP) = ([], None)"
    using analyze_string_yields_all [OF hunter2_line_free not_excluded_default
        module_rule_sets_valid(5)]
    by (simp add: json_matches)
  have no_colon_equals:
    "list_all (\<lambda>f. fst f \<noteq> FOLLOWED_BY_COLON_EQUAL_SIGNS_REGEX)
       QUOTES_REQUIRED_DENYLIST_REGEX_TO_GROUP"
    by (simp add: QUOTES_REQUIRED_DENYLIST_REGEX_TO_GROUP_def family_defs)
  show ?thesis
    using go json go_matches json_matches no_colon_equals hunter2_line_go(2)
    by (simp add: regex_by_filetype_get_simps analyze_line_def BasePlugin_analyze_line_def)
qed


section \<open>Case of the denylist keyword\<close>

text \<open>
  Claim C4. The right-to-left comparison family and the constructor/assign-call family are
  compiled without \<open>re.IGNORECASE\<close>: \<open>"bar" == my_password\<close> yields \<open>bar\<close> under the
  quote-required rule set and \<open>"bar" == MY_PASSWORD\<close> yields nothing; \<open>secret("bar")\<close>
  yields \<open>bar\<close> under the C++ rule set and \<open>SECRET("bar")\<close> yields nothing. A family that is
  compiled with the flag does keep its candidate: \<open>PASSWORD: "bar"\<close> yields what
  \<open>password: "bar"\<close> yields.
\<close>

theorem keyword_case_changes_the_result:
  \<open>analyze_string default_detector ''"bar" == my_password'' None = ([Some ''bar''], None) \<and>
   analyze_string default_detector ''"bar" == MY_PASSWORD'' None = ([], None) \<and>
   analyze_string default_detector ''secret("bar")'' (Some C_PLUS_PLUS_REGEX_TO_GROUP) =
     ([Some ''bar''], None) \<and>
   analyze_string default_detector ''SECRET("bar")'' (Some C_PLUS_PLUS_REGEX_TO_GROUP) =
     ([], None) \<and>
   analyze_string default_detector ''password: "bar"'' None = ([Some ''bar''], None) \<and>
   analyze_string default_detector ''PASSWORD: "bar"'' None = ([Some ''bar''], None)\<close>
  by (simp add: default_detector_def evaluation)


section \<open>Quote balance\<close>

text \<open>
  Claim C5. The \<open>data.put\<close> family requires quotes around the value and does not refer back
  to the opening one: on \<open>data.put("password", "bar')\<close>, whose value opens with a double
  quote and closes with a single one, the quote-required rule set yields \<open>bar\<close>. The colon
  family, which refers back to its opening quote, yields nothing on \<open>api_key: "value'\<close>.
\<close>

theorem data_put_accepts_unbalanced_quotes:
  \<open>family_matches ''data.put("password", "bar')'' (DATA_PUT_PASSWORD_REGEX, 2) \<and>
   analyze_string default_detector ''data.put("password", "bar')'' None =
     ([Some ''bar''], None) \<and>
   analyze_string default_detector ''api_key: "value' '' None = ([], None)\<close>
  by (simp add: default_detector_def family_matches_def evaluation)


section \<open>The shape of a candidate\<close>

text \<open>
  Claim C7. In \<open>re\<close> the escape \<open>\v\<close> of the secret body is the vertical tab alone, so a
  line feed is part of a candidate like any other character: on the line
  \<open>password: "hunter2\<close>, a line feed, \<open>"\<close> the candidate is \<open>hunter2\<close> followed by the line
  feed, which is its last character.
\<close>

theorem candidate_ends_with_line_feed:
  \<open>analyze_string default_detector (''password: "hunter2'' @ [CHR 0x0A, CHR 0x22]) None =
     ([Some (''hunter2'' @ [CHR 0x0A])], None) \<and>
   last (''hunter2'' @ [CHR 0x0A]) = CHR 0x0A\<close>
  by (simp add: default_detector_def evaluation)


section \<open>Construction and serialisation of the detector\<close>

lemma init_cases:
  assumes "KeywordDetector_init parse arg = Inr d"
  shows "keyword_exclude d = None \<or>
         (\<exists>text r. text \<noteq> [] \<and> parse text = Some r \<and>
                   keyword_exclude d = Some (text, Pattern True r))"
  using assms
  by (auto simp: KeywordDetector_init_def re_compile_def
      split: option.splits if_splits sum.splits)

lemma init_of_json:
  assumes "KeywordDetector_init parse arg = Inr d"
  shows "KeywordDetector_init parse
           (Some (case keyword_exclude d of Some (text, p) \<Rightarrow> text | None \<Rightarrow> [])) = Inr d"
  using assms
  by (auto simp: KeywordDetector_init_def re_compile_def
      split: option.splits if_splits sum.splits)

text \<open>
  Claim C8. For every detector \<open>d\<close> that \<open>__init__\<close> constructs, and a base mapping without
  the key \<open>keyword_exclude\<close>, \<open>d.json()\<close> has an entry \<open>keyword_exclude\<close>, constructing a
  detector from its value succeeds, and the detector so constructed yields what \<open>d\<close> yields
  on every line and rule set.
\<close>

theorem json_round_trip:
  assumes "KeywordDetector_init parse arg = Inr d" and "super_json ''keyword_exclude'' = None"
  shows "\<exists>text d'. json super_json d ''keyword_exclude'' = Some text \<and>
           KeywordDetector_init parse (Some text) = Inr d' \<and>
           (\<forall>s rs. analyze_string d' s rs = analyze_string d s rs)"
proof -
  let ?text = "case keyword_exclude d of Some (text, p) \<Rightarrow> text | None \<Rightarrow> []"
  have "json super_json d ''keyword_exclude'' = Some ?text"
    using assms(2) by (simp add: json_def map_add_def)
  moreover have "KeywordDetector_init parse (Some ?text) = Inr d"
    using assms(1) by (rule init_of_json)
  ultimately show ?thesis by blast
qed

theorem json_round_trip_witness:
  "\<exists>text d'.
     json Map.empty \<lparr>keyword_exclude = Some (''fake'', Pattern True (Lit ''fake''))\<rparr>
       ''keyword_exclude'' = Some text \<and>
     KeywordDetector_init (\<lambda>t. Some (Lit t)) (Some text) = Inr d' \<and>
     (\<forall>s rs. analyze_string d' s rs =
        analyze_string \<lparr>keyword_exclude = Some (''fake'', Pattern True (Lit ''fake''))\<rparr> s rs)"
proof -
  have a: "KeywordDetector_init (\<lambda>t. Some (Lit t)) (Some ''fake'') =
             Inr \<lparr>keyword_exclude = Some (''fake'', Pattern True (Lit ''fake''))\<rparr>"
    by (simp add: KeywordDetector_init_def re_compile_def)
  have b: "(Map.empty :: string \<rightharpoonup> string) ''keyword_exclude'' = None"
    by simp
  show ?thesis
    using json_round_trip [OF a b] .
qed

text \<open>
  Claim C10. Constructing the detector with the empty string is constructing it with no
  exclusion pattern: both constructions succeed with \<open>keyword_exclude\<close> \<open>None\<close>, the
  exclusion check suppresses no line, \<open>analyze_string\<close> yields the same on every line and
  rule set, and \<open>json()\<close> gives \<open>keyword_exclude\<close> the empty string (unless the base mapping
  has that key).
\<close>

theorem empty_exclusion_is_none:
  "KeywordDetector_init parse (Some []) = Inr \<lparr>keyword_exclude = None\<rparr> \<and>
   KeywordDetector_init parse None = Inr \<lparr>keyword_exclude = None\<rparr> \<and>
   (case (KeywordDetector_init parse (Some []), KeywordDetector_init parse None) of
      (Inr d1, Inr d2) \<Rightarrow>
        keyword_exclude d1 = None \<and> keyword_exclude d2 = None \<and>
        excluded d1 s = False \<and> excluded d2 s = False \<and>
        analyze_string d1 s rs = analyze_string d2 s rs \<and>
        json super_json d1 ''keyword_exclude'' =
          (case super_json ''keyword_exclude'' of None \<Rightarrow> Some [] | Some v \<Rightarrow> Some v) \<and>
        json super_json d2 ''keyword_exclude'' = json super_json d1 ''keyword_exclude'' \<and>
        json Map.empty d1 ''keyword_exclude'' = Some []
    | _ \<Rightarrow> False)"
  by (simp add: KeywordDetector_init_def excluded_def json_def map_add_def
      split: option.splits)


section \<open>Verification\<close>

text \<open>
  Claim C9. For a candidate given as text or as bytes, \<open>verify\<close> returns \<open>VERIFIED_FALSE\<close>
  exactly when the authority answered with an authentication-failure status; when the
  authority is unreachable, the request times out or the status is neither a success nor an
  authentication failure, it returns \<open>UNVERIFIED\<close>; bytes give what their text gives.
\<close>

theorem verify_false_needs_rejection:
  "(verify post decode c = VERIFIED_FALSE \<longleftrightarrow>
      (\<exists>st. post (normalize decode c) = Status st \<and> is_authentication_failure st)) \<and>
   (post (normalize decode c) = Unreachable \<longrightarrow> verify post decode c = UNVERIFIED) \<and>
   (post (normalize decode c) = TimedOut \<longrightarrow> verify post decode c = UNVERIFIED) \<and>
   (post (normalize decode c) = Status st \<and> \<not> is_success st \<and> \<not> is_authentication_failure st
      \<longrightarrow> verify post decode c = UNVERIFIED) \<and>
   verify post decode (Raw bs) = verify post decode (Text (decode bs))"
  by (auto simp: verify_def normalize_def is_success_def is_authentication_failure_def
      split: transport_outcome.splits)

theorem verify_false_needs_rejection_witness:
  "verify (\<lambda>secret. Status 400) (map char_of) (Text ''ukYEEX38RiGgq1BPf2m'') = VERIFIED_FALSE \<and>
   verify (\<lambda>secret. Status 400) (map char_of) (Raw [117, 107]) = VERIFIED_FALSE \<and>
   verify (\<lambda>secret. Unreachable) (map char_of) (Text ''ukYEEX38RiGgq1BPf2m'') = UNVERIFIED \<and>
   verify (\<lambda>secret. TimedOut) (map char_of) (Text ''ukYEEX38RiGgq1BPf2m'') = UNVERIFIED \<and>
   verify (\<lambda>secret. Status 503) (map char_of) (Text ''ukYEEX38RiGgq1BPf2m'') = UNVERIFIED"
  using verify_false_needs_rejection
          [of "\<lambda>secret. Status 400" "map char_of" "Text ''ukYEEX38RiGgq1BPf2m''" 400 "[]"]
        verify_false_needs_rejection
          [of "\<lambda>secret. Status 400" "map char_of" "Raw [117, 107]" 400 "[]"]
        verify_false_needs_rejection
          [of "\<lambda>secret. Unreachable" "map char_of" "Text ''ukYEEX38RiGgq1BPf2m''" 0 "[]"]
        verify_false_needs_rejection
          [of "\<lambda>secret. TimedOut" "map char_of" "Text ''ukYEEX38RiGgq1BPf2m''" 0 "[]"]
        verify_false_needs_rejection
          [of "\<lambda>secret. Status 503" "map char_of" "Text ''ukYEEX38RiGgq1BPf2m''" 503 "[]"]
  by (simp add: is_success_def is_authentication_failure_def)

end
